theory Spec2Isabelle
  imports Complex_Main "HOL-Library.AList" "HOL-Library.Sublist"
begin

section \<open>JavaScript values as the component sees them\<close>

text \<open>
  The component \<^verbatim>\<open>SkateParkMap.jsx\<close> reads parsed JSON bodies with plain property
  access, so the values are modelled dynamically typed, as JavaScript has them. A number
  carries the rational value of its double; the component does no arithmetic on numbers,
  it only passes them on, tests them for truthiness and prints them into a URL. An object
  is the list of its own properties, \<open>map_of\<close> reading a key.
\<close>

datatype jsval =
    JUndefined
  | JNull
  | JBool bool
  | JNum rat
  | JStr string
  | JArr "jsval list"
  | JObj "(string \<times> jsval) list"

datatype js_error =
    TypeError
  | Rejection string

text \<open>
  Two conversions of the JavaScript runtime are taken as parameters: the printing of a
  number (\<^verbatim>\<open>Number.prototype.toString\<close>) and whether the number a string converts
  to is greater than zero.
\<close>

record js_runtime =
  number_toString :: "rat \<Rightarrow> string"
  string_gt_zero :: "string \<Rightarrow> bool"

fun truthy :: "jsval \<Rightarrow> bool" where
  "truthy JUndefined = False"
| "truthy JNull = False"
| "truthy (JBool b) = b"
| "truthy (JNum n) = (n \<noteq> 0)"
| "truthy (JStr s) = (s \<noteq> [])"
| "truthy (JArr xs) = True"
| "truthy (JObj ps) = True"

text \<open>
  \<^verbatim>\<open>v.name\<close> for the names the component reads (\<^verbatim>\<open>features\<close>, \<^verbatim>\<open>geometry\<close>,
  \<^verbatim>\<open>coordinates\<close>, \<^verbatim>\<open>routes\<close>, \<^verbatim>\<open>length\<close>): reading a property of
  \<^verbatim>\<open>undefined\<close> or \<^verbatim>\<open>null\<close> throws a TypeError, a missing property reads as
  \<^verbatim>\<open>undefined\<close>, and arrays and strings have their \<^verbatim>\<open>length\<close>.
\<close>

fun get_prop :: "jsval \<Rightarrow> string \<Rightarrow> js_error + jsval" where
  "get_prop JUndefined k = Inl TypeError"
| "get_prop JNull k = Inl TypeError"
| "get_prop (JBool b) k = Inr JUndefined"
| "get_prop (JNum n) k = Inr JUndefined"
| "get_prop (JStr s) k =
     (if k = ''length'' then Inr (JNum (of_nat (length s))) else Inr JUndefined)"
| "get_prop (JArr xs) k =
     (if k = ''length'' then Inr (JNum (of_nat (length xs))) else Inr JUndefined)"
| "get_prop (JObj ps) k =
     (case map_of ps k of None \<Rightarrow> Inr JUndefined | Some v \<Rightarrow> Inr v)"

text \<open>\<^verbatim>\<open>v[0]\<close>: the first element of an array, the first character of a string, the
  property \<^verbatim>\<open>"0"\<close> of an object.\<close>

fun get_index0 :: "jsval \<Rightarrow> js_error + jsval" where
  "get_index0 JUndefined = Inl TypeError"
| "get_index0 JNull = Inl TypeError"
| "get_index0 (JBool b) = Inr JUndefined"
| "get_index0 (JNum n) = Inr JUndefined"
| "get_index0 (JStr s) = (case s of [] \<Rightarrow> Inr JUndefined | c # _ \<Rightarrow> Inr (JStr [c]))"
| "get_index0 (JArr xs) = (case xs of [] \<Rightarrow> Inr JUndefined | x # _ \<Rightarrow> Inr x)"
| "get_index0 (JObj ps) =
     (case map_of ps ''0'' of None \<Rightarrow> Inr JUndefined | Some v \<Rightarrow> Inr v)"

text \<open>
  \<^verbatim>\<open>Array.prototype.join\<close> with the separator \<^verbatim>\<open>','\<close>: \<^verbatim>\<open>undefined\<close> and
  \<^verbatim>\<open>null\<close> elements print as the empty string, a nested array is joined in turn, and a
  plain object prints as \<^verbatim>\<open>[object Object]\<close> unless it has an own property
  \<^verbatim>\<open>toString\<close>, which a parsed JSON value cannot call.
\<close>

fun to_string :: "js_runtime \<Rightarrow> jsval \<Rightarrow> js_error + string"
  and join_from :: "js_runtime \<Rightarrow> jsval list \<Rightarrow> js_error + string"
  and join_elem :: "js_runtime \<Rightarrow> jsval \<Rightarrow> js_error + string" where
  "to_string rt JUndefined = Inr ''undefined''"
| "to_string rt JNull = Inr ''null''"
| "to_string rt (JBool b) = Inr (if b then ''true'' else ''false'')"
| "to_string rt (JNum n) = Inr (number_toString rt n)"
| "to_string rt (JStr s) = Inr s"
| "to_string rt (JArr xs) = join_from rt xs"
| "to_string rt (JObj ps) =
     (if ''toString'' \<in> set (map fst ps) then Inl TypeError else Inr ''[object Object]'')"
| "join_from rt [] = Inr []"
| "join_from rt [x] = join_elem rt x"
| "join_from rt (x # y # ys) =
     (case join_elem rt x of
        Inl e \<Rightarrow> Inl e
      | Inr s \<Rightarrow> (case join_from rt (y # ys) of
                    Inl e \<Rightarrow> Inl e
                  | Inr t \<Rightarrow> Inr (s @ '','' @ t)))"
| "join_elem rt JUndefined = Inr []"
| "join_elem rt JNull = Inr []"
| "join_elem rt (JBool b) = to_string rt (JBool b)"
| "join_elem rt (JNum n) = to_string rt (JNum n)"
| "join_elem rt (JStr s) = to_string rt (JStr s)"
| "join_elem rt (JArr xs) = to_string rt (JArr xs)"
| "join_elem rt (JObj ps) = to_string rt (JObj ps)"

text \<open>\<^verbatim>\<open>v.join(',')\<close>: only an array has a callable \<^verbatim>\<open>join\<close>.\<close>

fun call_join :: "js_runtime \<Rightarrow> jsval \<Rightarrow> js_error + string" where
  "call_join rt (JArr xs) = join_from rt xs"
| "call_join rt v = Inl TypeError"

text \<open>\<^verbatim>\<open>v > 0\<close>, with the coercion of \<^verbatim>\<open>v\<close> to a number.\<close>

fun gt_zero :: "js_runtime \<Rightarrow> jsval \<Rightarrow> js_error + bool" where
  "gt_zero rt JUndefined = Inr False"
| "gt_zero rt JNull = Inr False"
| "gt_zero rt (JBool b) = Inr b"
| "gt_zero rt (JNum n) = Inr (0 < n)"
| "gt_zero rt (JStr s) = Inr (string_gt_zero rt s)"
| "gt_zero rt (JArr xs) =
     (case join_from rt xs of Inl e \<Rightarrow> Inl e | Inr s \<Rightarrow> Inr (string_gt_zero rt s))"
| "gt_zero rt (JObj ps) =
     (if ''toString'' \<in> set (map fst ps) then Inl TypeError else Inr False)"


section \<open>The network, the console and the component state\<close>

text \<open>
  \<^verbatim>\<open>fetch\<close> either rejects or resolves to a response, whose \<^verbatim>\<open>json()\<close> either
  rejects or yields the parsed body. The network is a parameter: what it answers to a
  request may depend on the requests made before.
\<close>

record response =
  ok :: bool
  json :: "js_error + jsval"

datatype fetch_outcome =
    FetchRejects js_error
  | FetchResolves response

type_synonym network = "string list \<Rightarrow> string \<Rightarrow> fetch_outcome"

datatype log_arg =
    Val jsval
  | Err js_error

datatype console_entry =
    ConsoleLog string "log_arg list"
  | ConsoleError string "log_arg list"

text \<open>The six \<^verbatim>\<open>useState\<close> slots of the component.\<close>

record app_state =
  viewport :: "(string \<times> jsval) list"
  selectedPark :: jsval
  userPin :: jsval
  startLocation :: string
  endLocation :: string
  route :: jsval

record world =
  requests :: "string list"
  console :: "console_entry list"
  ui :: app_state

text \<open>The access token is configuration outside the component.\<close>

record config =
  import_meta_env_VITE_MAPBOX_TOKEN :: string
  process_env_VITE_MAPBOX_TOKEN :: string

definition initial_state :: app_state where
  "initial_state =
     \<lparr> viewport =
         [(''latitude'', JNum (454211 / 10000)),
          (''longitude'', JNum (- (756903 / 10000))),
          (''width'', JStr ''100vw''),
          (''height'', JStr ''100vh''),
          (''zoom'', JNum 10),
          (''bearing'', JNum 0),
          (''pitch'', JNum 0)],
       selectedPark = JNull,
       userPin = JNull,
       startLocation = [],
       endLocation = [],
       route = JNull \<rparr>"

subsection \<open>Computations that may throw\<close>

type_synonym 'a js = "world \<Rightarrow> (js_error + 'a) \<times> world"

definition err_bind :: "js_error + 'a \<Rightarrow> ('a \<Rightarrow> js_error + 'b) \<Rightarrow> js_error + 'b" where
  "err_bind r f = (case r of Inl e \<Rightarrow> Inl e | Inr x \<Rightarrow> f x)"

definition js_return :: "'a \<Rightarrow> 'a js" where
  "js_return x w = (Inr x, w)"

definition js_lift :: "js_error + 'a \<Rightarrow> 'a js" where
  "js_lift r w = (r, w)"

definition js_bind :: "'a js \<Rightarrow> ('a \<Rightarrow> 'b js) \<Rightarrow> 'b js" where
  "js_bind m f w = (case m w of (Inl e, w') \<Rightarrow> (Inl e, w') | (Inr x, w') \<Rightarrow> f x w')"

definition js_try :: "'a js \<Rightarrow> (js_error \<Rightarrow> 'a js) \<Rightarrow> 'a js" where
  "js_try m h w = (case m w of (Inl e, w') \<Rightarrow> h e w' | (Inr x, w') \<Rightarrow> (Inr x, w'))"

definition fetch :: "network \<Rightarrow> string \<Rightarrow> response js" where
  "fetch net url w =
     ((case net (requests w) url of FetchRejects e \<Rightarrow> Inl e | FetchResolves r \<Rightarrow> Inr r),
      w\<lparr>requests := requests w @ [url]\<rparr>)"

definition response_json :: "response \<Rightarrow> jsval js" where
  "response_json r = js_lift (json r)"

definition console_log :: "string \<Rightarrow> log_arg list \<Rightarrow> unit js" where
  "console_log msg args w = (Inr (), w\<lparr>console := console w @ [ConsoleLog msg args]\<rparr>)"

definition console_error :: "string \<Rightarrow> log_arg list \<Rightarrow> unit js" where
  "console_error msg args w = (Inr (), w\<lparr>console := console w @ [ConsoleError msg args]\<rparr>)"

definition setRoute :: "jsval \<Rightarrow> unit js" where
  "setRoute v w = (Inr (), w\<lparr>ui := (ui w)\<lparr>route := v\<rparr>\<rparr>)"

definition setUserPin :: "jsval \<Rightarrow> unit js" where
  "setUserPin v w = (Inr (), w\<lparr>ui := (ui w)\<lparr>userPin := v\<rparr>\<rparr>)"

definition setSelectedPark :: "jsval \<Rightarrow> unit js" where
  "setSelectedPark v w = (Inr (), w\<lparr>ui := (ui w)\<lparr>selectedPark := v\<rparr>\<rparr>)"

text \<open>\<^verbatim>\<open>setViewport\<close> called with an updater function of the previous viewport.\<close>

definition setViewport ::
  "((string \<times> jsval) list \<Rightarrow> (string \<times> jsval) list) \<Rightarrow> unit js" where
  "setViewport f w = (Inr (), w\<lparr>ui := (ui w)\<lparr>viewport := f (viewport (ui w))\<rparr>\<rparr>)"

section \<open>The geocoder adapter\<close>

definition geocode_url :: "config \<Rightarrow> string \<Rightarrow> string" where
  "geocode_url cfg location =
     ''https://api.mapbox.com/geocoding/v5/mapbox.places/'' @ location
       @ ''.json?access_token='' @ import_meta_env_VITE_MAPBOX_TOKEN cfg"

text \<open>\<^verbatim>\<open>data.features && data.features.length > 0\<close>\<close>

definition has_features :: "js_runtime \<Rightarrow> jsval \<Rightarrow> js_error + bool" where
  "has_features rt data =
     err_bind (get_prop data ''features'') (\<lambda>features.
       if truthy features then
         err_bind (get_prop data ''features'') (\<lambda>features'.
         err_bind (get_prop features' ''length'') (gt_zero rt))
       else Inr False)"

text \<open>\<^verbatim>\<open>data.features[0].geometry.coordinates\<close>\<close>

definition first_coordinates :: "jsval \<Rightarrow> js_error + jsval" where
  "first_coordinates data =
     err_bind (get_prop data ''features'') (\<lambda>features.
     err_bind (get_index0 features) (\<lambda>first.
     err_bind (get_prop first ''geometry'') (\<lambda>geometry.
       get_prop geometry ''coordinates'')))"

definition geocodeLocation :: "js_runtime \<Rightarrow> config \<Rightarrow> network \<Rightarrow> string \<Rightarrow> jsval js" where
  "geocodeLocation rt cfg net location =
     js_try
       (js_bind (fetch net (geocode_url cfg location)) (\<lambda>response.
        js_bind (response_json response) (\<lambda>data.
        js_bind (js_lift (has_features rt data)) (\<lambda>found.
          if found then
            js_bind (js_lift (first_coordinates data)) (\<lambda>logged.
            js_bind (console_log (''Geocoded '' @ location @ '':'') [Val logged]) (\<lambda>_.
              js_lift (first_coordinates data)))
          else
            js_bind (console_error (''No results found for location: '' @ location) []) (\<lambda>_.
              js_return JNull)))))
       (\<lambda>error.
          js_bind (console_error (''Error fetching geocode for location: '' @ location)
                     [Err error]) (\<lambda>_.
            js_return JNull))"

section \<open>The route fetcher\<close>

definition directions_url :: "config \<Rightarrow> string \<Rightarrow> string \<Rightarrow> string" where
  "directions_url cfg start_part end_part =
     ''https://api.mapbox.com/directions/v5/mapbox/driving/'' @ start_part @ '';'' @ end_part
       @ ''?geometries=geojson&access_token='' @ process_env_VITE_MAPBOX_TOKEN cfg"

text \<open>\<^verbatim>\<open>data.routes[0].geometry\<close>\<close>

definition first_route_geometry :: "jsval \<Rightarrow> js_error + jsval" where
  "first_route_geometry data =
     err_bind (get_prop data ''routes'') (\<lambda>routes.
     err_bind (get_index0 routes) (\<lambda>first.
       get_prop first ''geometry''))"

definition fetchRoute :: "js_runtime \<Rightarrow> config \<Rightarrow> network \<Rightarrow> unit js" where
  "fetchRoute rt cfg net w =
     (if startLocation (ui w) \<noteq> [] \<and> endLocation (ui w) \<noteq> [] then
        js_try
          (js_bind (geocodeLocation rt cfg net (startLocation (ui w))) (\<lambda>startCoords.
           js_bind (geocodeLocation rt cfg net (endLocation (ui w))) (\<lambda>endCoords.
             if truthy startCoords \<and> truthy endCoords then
               js_bind (js_lift (call_join rt startCoords)) (\<lambda>start_part.
               js_bind (js_lift (call_join rt endCoords)) (\<lambda>end_part.
               js_bind (fetch net (directions_url cfg start_part end_part)) (\<lambda>res.
                 if ok res then
                   js_bind (response_json res) (\<lambda>data.
                   js_bind (js_lift (first_route_geometry data)) setRoute)
                 else
                   js_bind (response_json res) (\<lambda>errorData.
                     console_error ''Error fetching route:'' [Val errorData]))))
             else
               console_error ''Geocoding failed for one or both locations.'' [])))
          (\<lambda>error. console_error ''Error in geocoding or fetching route:'' [Err error])
          w
      else (Inr (), w))"

definition is_directions_request :: "string \<Rightarrow> bool" where
  "is_directions_request url =
     prefix ''https://api.mapbox.com/directions/v5/mapbox/driving/'' url"

section \<open>Map events\<close>

text \<open>
  \<^verbatim>\<open>const [longitude, latitude] = event.lngLat\<close>: array destructuring takes the first
  two values the right-hand side iterates over, \<^verbatim>\<open>undefined\<close> where it runs out, and
  throws a TypeError when the right-hand side is not iterable.
\<close>

record map_mouse_event =
  lngLat :: jsval

fun destructure2 :: "jsval \<Rightarrow> js_error + (jsval \<times> jsval)" where
  "destructure2 (JArr xs) =
     (case xs of
        [] \<Rightarrow> Inr (JUndefined, JUndefined)
      | [x] \<Rightarrow> Inr (x, JUndefined)
      | x # y # _ \<Rightarrow> Inr (x, y))"
| "destructure2 (JStr s) =
     (case s of
        [] \<Rightarrow> Inr (JUndefined, JUndefined)
      | [c] \<Rightarrow> Inr (JStr [c], JUndefined)
      | c # d # _ \<Rightarrow> Inr (JStr [c], JStr [d]))"
| "destructure2 v = Inl TypeError"

definition handleMapClick :: "map_mouse_event \<Rightarrow> unit js" where
  "handleMapClick event =
     js_bind (js_lift (destructure2 (lngLat event))) (\<lambda>(longitude, latitude).
       setUserPin (JObj [(''latitude'', latitude), (''longitude'', longitude)]))"

text \<open>The \<^verbatim>\<open>onClick\<close> of a park's marker button.\<close>

record click_event =
  defaultPrevented :: bool

definition preventDefault :: "click_event \<Rightarrow> click_event" where
  "preventDefault evt = evt\<lparr>defaultPrevented := True\<rparr>"

definition marker_onClick :: "jsval \<Rightarrow> click_event \<Rightarrow> world \<Rightarrow> click_event \<times> (js_error + unit) \<times> world" where
  "marker_onClick park evt w = (preventDefault evt, setSelectedPark park w)"

section \<open>Geolocation on startup\<close>

record geolocation_coordinates =
  latitude :: rat
  longitude :: rat

record geolocation_position =
  coords :: geolocation_coordinates

datatype geolocation =
    Unsupported
  | Unanswered
  | Failed
  | Located geolocation_position

text \<open>\<^verbatim>\<open>{...prevViewport, latitude: lat, longitude: lon, zoom: 12}\<close>\<close>

definition recentre :: "jsval \<Rightarrow> jsval \<Rightarrow> (string \<times> jsval) list \<Rightarrow> (string \<times> jsval) list" where
  "recentre lat lon prevViewport =
     AList.update ''zoom'' (JNum 12)
       (AList.update ''longitude'' lon
         (AList.update ''latitude'' lat prevViewport))"

definition geolocation_effect :: "geolocation \<Rightarrow> unit js" where
  "geolocation_effect g =
     (case g of
        Unsupported \<Rightarrow>
          console_log ''Geolocation not supported, using default location.'' []
      | Unanswered \<Rightarrow> js_return ()
      | Failed \<Rightarrow>
          console_log ''Geolocation not available, using default location.'' []
      | Located position \<Rightarrow>
          setViewport
            (recentre (JNum (latitude (coords position))) (JNum (longitude (coords position)))))"


section \<open>Test doubles\<close>

text \<open>
  A runtime, a configuration, canned responses and a scripted network, on which the
  component can be run: the directions endpoint answers \<open>dir\<close>, the first geocoding
  request \<open>geo_start\<close> and every later one \<open>geo_end\<close>.
\<close>

definition stub_runtime :: js_runtime where
  "stub_runtime =
     \<lparr> number_toString =
         (\<lambda>n. if n = 45 then ''45'' else if n = - 75 then ''-75''
              else if n = 43 then ''43'' else if n = - 79 then ''-79'' else ''0''),
       string_gt_zero = (\<lambda>s. False) \<rparr>"

definition stub_config :: config where
  "stub_config =
     \<lparr> import_meta_env_VITE_MAPBOX_TOKEN = ''pk.a'',
       process_env_VITE_MAPBOX_TOKEN = ''pk.b'' \<rparr>"

definition geocode_hit :: "rat \<Rightarrow> rat \<Rightarrow> fetch_outcome" where
  "geocode_hit lon lat =
     FetchResolves
       \<lparr> ok = True,
         json = Inr (JObj
           [(''type'', JStr ''FeatureCollection''),
            (''features'', JArr
               [JObj [(''geometry'', JObj
                  [(''type'', JStr ''Point''),
                   (''coordinates'', JArr [JNum lon, JNum lat])])]])]) \<rparr>"

definition geocode_miss :: fetch_outcome where
  "geocode_miss =
     FetchResolves
       \<lparr> ok = True,
         json = Inr (JObj [(''type'', JStr ''FeatureCollection''), (''features'', JArr [])]) \<rparr>"

definition line_geometry :: jsval where
  "line_geometry =
     JObj [(''type'', JStr ''LineString''),
           (''coordinates'', JArr [JArr [JNum (- 75), JNum 45], JArr [JNum (- 79), JNum 43]])]"

definition directions_hit :: fetch_outcome where
  "directions_hit =
     FetchResolves
       \<lparr> ok = True,
         json = Inr (JObj
           [(''routes'', JArr [JObj [(''geometry'', line_geometry)]]),
            (''code'', JStr ''Ok'')]) \<rparr>"

definition directions_no_route :: fetch_outcome where
  "directions_no_route =
     FetchResolves
       \<lparr> ok = True,
         json = Inr (JObj [(''routes'', JArr []), (''code'', JStr ''NoRoute'')]) \<rparr>"

definition directions_unauthorized :: fetch_outcome where
  "directions_unauthorized =
     FetchResolves
       \<lparr> ok = False,
         json = Inr (JObj [(''message'', JStr ''Not Authorized'')]) \<rparr>"

definition directions_bad_gateway :: fetch_outcome where
  "directions_bad_gateway =
     FetchResolves \<lparr> ok = False, json = Inl (Rejection ''SyntaxError'') \<rparr>"

definition stub_network :: "fetch_outcome \<Rightarrow> fetch_outcome \<Rightarrow> fetch_outcome \<Rightarrow> network" where
  "stub_network geo_start geo_end dir history url =
     (if is_directions_request url then dir
      else if history = [] then geo_start
      else geo_end)"

definition stub_world :: "string \<Rightarrow> string \<Rightarrow> world" where
  "stub_world start_text end_text =
     \<lparr> requests = [],
       console = [],
       ui = initial_state\<lparr>startLocation := start_text, endLocation := end_text\<rparr> \<rparr>"


section \<open>Facts about the geocoder adapter\<close>

lemmas js_defs = js_bind_def js_try_def js_lift_def js_return_def fetch_def response_json_def
  console_log_def console_error_def setRoute_def

lemmas stub_defs = stub_runtime_def stub_config_def geocode_hit_def geocode_miss_def
  line_geometry_def directions_hit_def directions_no_route_def directions_unauthorized_def
  directions_bad_gateway_def stub_network_def stub_world_def initial_state_def
  is_directions_request_def geocode_url_def directions_url_def

lemmas geocode_defs = geocodeLocation_def has_features_def first_coordinates_def err_bind_def

lemma geocodeLocation_total:
  "\<exists>v. fst (geocodeLocation rt cfg net location w) = Inr v"
  unfolding geocodeLocation_def js_defs
  by (auto split: sum.splits fetch_outcome.splits prod.splits if_splits)

lemma geocodeLocation_requests:
  "requests (snd (geocodeLocation rt cfg net location w)) = requests w @ [geocode_url cfg location]"
  unfolding geocodeLocation_def js_defs
  by (auto split: sum.splits fetch_outcome.splits prod.splits if_splits)

lemma geocodeLocation_ui:
  "ui (snd (geocodeLocation rt cfg net location w)) = ui w"
  unfolding geocodeLocation_def js_defs
  by (auto split: sum.splits fetch_outcome.splits prod.splits if_splits)

lemma geocode_url_not_directions:
  "\<not> is_directions_request (geocode_url cfg location)"
  by (simp add: is_directions_request_def geocode_url_def)

lemma directions_url_is_directions:
  "is_directions_request (directions_url cfg s e)"
  by (simp add: is_directions_request_def directions_url_def)

lemma geocode_both:
  assumes g1: "geocodeLocation rt cfg net a w = (r1, w1)"
    and g2: "geocodeLocation rt cfg net b w1 = (r2, w2)"
  shows "requests w2 = requests w @ [geocode_url cfg a, geocode_url cfg b]"
    and "ui w2 = ui w"
proof -
  have "requests w1 = requests w @ [geocode_url cfg a]"
    using geocodeLocation_requests [of rt cfg net a w] g1 by simp
  moreover have "requests w2 = requests w1 @ [geocode_url cfg b]"
    using geocodeLocation_requests [of rt cfg net b w1] g2 by simp
  ultimately show "requests w2 = requests w @ [geocode_url cfg a, geocode_url cfg b]"
    by simp
  have "ui w1 = ui w"
    using geocodeLocation_ui [of rt cfg net a w] g1 by simp
  moreover have "ui w2 = ui w1"
    using geocodeLocation_ui [of rt cfg net b w1] g2 by simp
  ultimately show "ui w2 = ui w"
    by simp
qed

section \<open>The test doubles at work\<close>

lemma stub_geocode_start:
  "geocodeLocation stub_runtime stub_config
     (stub_network (geocode_hit (- 75) 45) g d)
     ''Ottawa'' (stub_world ''Ottawa'' b)
   = (Inr (JArr [JNum (- 75), JNum 45]),
      (stub_world ''Ottawa'' b)
        \<lparr> requests := [geocode_url stub_config ''Ottawa''],
          console := [ConsoleLog ''Geocoded Ottawa:'' [Val (JArr [JNum (- 75), JNum 45])]] \<rparr>)"
  by (simp add: geocode_defs js_defs stub_defs)


lemma stub_geocode_end:
  "geocodeLocation stub_runtime stub_config
     (stub_network (geocode_hit (- 75) 45) (geocode_hit (- 79) 43) d)
     ''Toronto''
     ((stub_world ''Ottawa'' ''Toronto'')
        \<lparr> requests := [geocode_url stub_config ''Ottawa''],
          console := [ConsoleLog ''Geocoded Ottawa:'' [Val (JArr [JNum (- 75), JNum 45])]] \<rparr>)
   = (Inr (JArr [JNum (- 79), JNum 43]),
      (stub_world ''Ottawa'' ''Toronto'')
        \<lparr> requests := [geocode_url stub_config ''Ottawa'', geocode_url stub_config ''Toronto''],
          console := [ConsoleLog ''Geocoded Ottawa:'' [Val (JArr [JNum (- 75), JNum 45])],
                      ConsoleLog ''Geocoded Toronto:'' [Val (JArr [JNum (- 79), JNum 43])]] \<rparr>)"
  by (simp add: geocode_defs js_defs stub_defs)

lemma stub_geocode_miss:
  "geocodeLocation stub_runtime stub_config
     (stub_network (geocode_hit (- 75) 45) geocode_miss d)
     ''Atlantis''
     ((stub_world ''Ottawa'' ''Atlantis'')
        \<lparr> requests := [geocode_url stub_config ''Ottawa''],
          console := [ConsoleLog ''Geocoded Ottawa:'' [Val (JArr [JNum (- 75), JNum 45])]] \<rparr>)
   = (Inr JNull,
      (stub_world ''Ottawa'' ''Atlantis'')
        \<lparr> requests := [geocode_url stub_config ''Ottawa'', geocode_url stub_config ''Atlantis''],
          console := [ConsoleLog ''Geocoded Ottawa:'' [Val (JArr [JNum (- 75), JNum 45])],
                      ConsoleError ''No results found for location: Atlantis'' []] \<rparr>)"
  by (simp add: geocode_defs js_defs stub_defs)

lemma call_join_truthy: "call_join rt v = Inr s \<Longrightarrow> truthy v"
  by (cases v) simp_all

lemma handleMapClick_not_iterable:
  "handleMapClick \<lparr> lngLat = JObj ps \<rparr> w = (Inl TypeError, w)"
  by (simp add: handleMapClick_def js_bind_def js_lift_def)

section \<open>Route fetching: the request made and the route committed\<close>

text \<open>
  Claim C1. When both texts are non-empty and both geocode to a coordinate pair,
  \<open>fetchRoute\<close> makes, after the two geocoding requests, exactly one request to the
  directions endpoint. Its URL is the driving endpoint followed by the longitude and the
  latitude of the start, a semicolon, the longitude and the latitude of the end, and the
  query \<^verbatim>\<open>?geometries=geojson&access_token=\<close> with the token. When that request
  resolves with \<^verbatim>\<open>ok\<close> and a body whose first route candidate has a geometry, the
  route slot becomes that geometry and nothing else of the state changes.
\<close>

theorem fetchRoute_requests_route_once:
  assumes "startLocation (ui w) \<noteq> []" and "endLocation (ui w) \<noteq> []"
    and g1: "geocodeLocation rt cfg net (startLocation (ui w)) w
               = (Inr (JArr [JNum slon, JNum slat]), w1)"
    and g2: "geocodeLocation rt cfg net (endLocation (ui w)) w1
               = (Inr (JArr [JNum elon, JNum elat]), w2)"
    and url: "url = ''https://api.mapbox.com/directions/v5/mapbox/driving/''
                @ number_toString rt slon @ '','' @ number_toString rt slat
                @ '';''
                @ number_toString rt elon @ '','' @ number_toString rt elat
                @ ''?geometries=geojson&access_token='' @ process_env_VITE_MAPBOX_TOKEN cfg"
  shows "requests (snd (fetchRoute rt cfg net w))
           = requests w @ [geocode_url cfg (startLocation (ui w)),
                           geocode_url cfg (endLocation (ui w)), url]
       \<and> filter is_directions_request
           (drop (length (requests w)) (requests (snd (fetchRoute rt cfg net w)))) = [url]
       \<and> (\<forall>res data r rs g.
             net (requests w2) url = FetchResolves res \<and> ok res \<and> json res = Inr data
               \<and> get_prop data ''routes'' = Inr (JArr (r # rs))
               \<and> get_prop r ''geometry'' = Inr g
             \<longrightarrow> ui (snd (fetchRoute rt cfg net w)) = (ui w)\<lparr>route := g\<rparr>)"
proof -
  note both = geocode_both [OF g1 g2]
  have url': "url = directions_url cfg
                (number_toString rt slon @ '','' @ number_toString rt slat)
                (number_toString rt elon @ '','' @ number_toString rt elat)"
    unfolding url by (simp add: directions_url_def)
  have j: "call_join rt (JArr [JNum slon, JNum slat])
             = Inr (number_toString rt slon @ '','' @ number_toString rt slat)"
    "call_join rt (JArr [JNum elon, JNum elat])
             = Inr (number_toString rt elon @ '','' @ number_toString rt elat)"
    by simp_all
  have reqs: "requests (snd (fetchRoute rt cfg net w)) = requests w2 @ [url]"
    using assms(1-4) j unfolding fetchRoute_def js_defs url'
    by (auto split: sum.splits fetch_outcome.splits prod.splits)
  have a: "requests (snd (fetchRoute rt cfg net w))
           = requests w @ [geocode_url cfg (startLocation (ui w)),
                           geocode_url cfg (endLocation (ui w)), url]"
    using reqs both(1) by simp
  have b: "filter is_directions_request
           (drop (length (requests w)) (requests (snd (fetchRoute rt cfg net w)))) = [url]"
    using a url' by (simp add: geocode_url_not_directions directions_url_is_directions)
  have c: "ui (snd (fetchRoute rt cfg net w)) = (ui w)\<lparr>route := g\<rparr>"
    if "net (requests w2) url = FetchResolves res" "ok res" "json res = Inr data"
      "get_prop data ''routes'' = Inr (JArr (r # rs))" "get_prop r ''geometry'' = Inr g"
    for res data r rs g
    using assms(1-4) j that both(2)
    unfolding fetchRoute_def js_defs first_route_geometry_def err_bind_def url'
    by simp
  show ?thesis using a b c by blast
qed

theorem fetchRoute_requests_route_once_witness:
  "startLocation (ui (stub_world ''Ottawa'' ''Toronto'')) \<noteq> []
   \<and> endLocation (ui (stub_world ''Ottawa'' ''Toronto'')) \<noteq> []
   \<and> requests (snd (fetchRoute stub_runtime stub_config
         (stub_network (geocode_hit (- 75) 45) (geocode_hit (- 79) 43) directions_hit)
         (stub_world ''Ottawa'' ''Toronto'')))
       = [''https://api.mapbox.com/geocoding/v5/mapbox.places/Ottawa.json?access_token=pk.a'',
          ''https://api.mapbox.com/geocoding/v5/mapbox.places/Toronto.json?access_token=pk.a'',
          ''https://api.mapbox.com/directions/v5/mapbox/driving/-75,45;-79,43?geometries=geojson&access_token=pk.b'']
   \<and> ui (snd (fetchRoute stub_runtime stub_config
         (stub_network (geocode_hit (- 75) 45) (geocode_hit (- 79) 43) directions_hit)
         (stub_world ''Ottawa'' ''Toronto'')))
       = (ui (stub_world ''Ottawa'' ''Toronto''))\<lparr>route := line_geometry\<rparr>"
proof -
  let ?net = "stub_network (geocode_hit (- 75) 45) (geocode_hit (- 79) 43) directions_hit"
  let ?w = "stub_world ''Ottawa'' ''Toronto''"
  let ?w1 = "?w\<lparr> requests := [geocode_url stub_config ''Ottawa''],
          console := [ConsoleLog ''Geocoded Ottawa:'' [Val (JArr [JNum (- 75), JNum 45])]] \<rparr>"
  let ?w2 = "?w\<lparr> requests := [geocode_url stub_config ''Ottawa'', geocode_url stub_config ''Toronto''],
          console := [ConsoleLog ''Geocoded Ottawa:'' [Val (JArr [JNum (- 75), JNum 45])],
                      ConsoleLog ''Geocoded Toronto:'' [Val (JArr [JNum (- 79), JNum 43])]] \<rparr>"
  let ?url = "''https://api.mapbox.com/directions/v5/mapbox/driving/-75,45;-79,43?geometries=geojson&access_token=pk.b''"
  let ?route = "JObj [(''geometry'', line_geometry)]"
  let ?data = "JObj [(''routes'', JArr [?route]), (''code'', JStr ''Ok'')]"
  let ?res = "\<lparr> ok = True, json = Inr ?data \<rparr>"
  have s: "startLocation (ui ?w) = ''Ottawa''" and e: "endLocation (ui ?w) = ''Toronto''"
    and r: "requests ?w = []"
    by (simp_all add: stub_world_def)
  have h1: "startLocation (ui ?w) \<noteq> []" and h2: "endLocation (ui ?w) \<noteq> []"
    by (simp_all add: s e)
  have g1: "geocodeLocation stub_runtime stub_config ?net (startLocation (ui ?w)) ?w
              = (Inr (JArr [JNum (- 75), JNum 45]), ?w1)"
    unfolding s by (rule stub_geocode_start)
  have g2: "geocodeLocation stub_runtime stub_config ?net (endLocation (ui ?w)) ?w1
              = (Inr (JArr [JNum (- 79), JNum 43]), ?w2)"
    unfolding e by (rule stub_geocode_end)
  have u: "?url = ''https://api.mapbox.com/directions/v5/mapbox/driving/''
                @ number_toString stub_runtime (- 75) @ '','' @ number_toString stub_runtime 45
                @ '';''
                @ number_toString stub_runtime (- 79) @ '','' @ number_toString stub_runtime 43
                @ ''?geometries=geojson&access_token='' @ process_env_VITE_MAPBOX_TOKEN stub_config"
    by (simp add: stub_runtime_def stub_config_def)
  note inst = fetchRoute_requests_route_once [OF h1 h2 g1 g2 u]
  have n: "?net (requests ?w2) ?url = FetchResolves ?res"
    by (simp add: stub_network_def is_directions_request_def directions_hit_def)
  have p1: "get_prop ?data ''routes'' = Inr (JArr (?route # []))"
    and p2: "get_prop ?route ''geometry'' = Inr line_geometry"
    by simp_all
  have gu: "geocode_url stub_config ''Ottawa''
              = ''https://api.mapbox.com/geocoding/v5/mapbox.places/Ottawa.json?access_token=pk.a''"
    "geocode_url stub_config ''Toronto''
              = ''https://api.mapbox.com/geocoding/v5/mapbox.places/Toronto.json?access_token=pk.a''"
    by (simp_all add: geocode_url_def stub_config_def)
  have "ui (snd (fetchRoute stub_runtime stub_config ?net ?w)) = (ui ?w)\<lparr>route := line_geometry\<rparr>"
    using inst n p1 p2 by (metis response.select_convs(1,2))
  moreover have "requests (snd (fetchRoute stub_runtime stub_config ?net ?w))
       = [''https://api.mapbox.com/geocoding/v5/mapbox.places/Ottawa.json?access_token=pk.a'',
          ''https://api.mapbox.com/geocoding/v5/mapbox.places/Toronto.json?access_token=pk.a'',
          ?url]"
    using inst unfolding s e r gu by simp
  ultimately show ?thesis using h1 h2 by blast
qed

section \<open>Route fetching: empty input\<close>

text \<open>
  Claim C2. When the start text or the end text is empty, \<open>fetchRoute\<close> returns at once:
  no request is made, nothing is logged and no slot of the state changes, the route slot
  included.
\<close>

theorem fetchRoute_empty_text_noop:
  "startLocation (ui w) = [] \<or> endLocation (ui w) = [] \<Longrightarrow> fetchRoute rt cfg net w = (Inr (), w)"
  by (auto simp: fetchRoute_def)

theorem fetchRoute_empty_text_noop_witness:
  "(startLocation (ui (stub_world [] ''Toronto'')) = []
      \<or> endLocation (ui (stub_world [] ''Toronto'')) = [])
   \<and> fetchRoute stub_runtime stub_config
        (stub_network (geocode_hit (- 75) 45) (geocode_hit (- 79) 43) directions_hit)
        (stub_world [] ''Toronto'')
      = (Inr (), stub_world [] ''Toronto'')
   \<and> requests (stub_world [] ''Toronto'') = []
   \<and> route (ui (stub_world [] ''Toronto'')) = JNull"
proof -
  have h: "startLocation (ui (stub_world [] ''Toronto'')) = []
      \<or> endLocation (ui (stub_world [] ''Toronto'')) = []"
    by (simp add: stub_world_def)
  show ?thesis
    using h fetchRoute_empty_text_noop [OF h, of stub_runtime stub_config
        "stub_network (geocode_hit (- 75) 45) (geocode_hit (- 79) 43) directions_hit"]
    by (simp add: stub_world_def initial_state_def)
qed

section \<open>Route fetching: a place that is not found\<close>

text \<open>
  Claim C3. With both texts non-empty, when the geocoding of the start or of the end
  returns \<^verbatim>\<open>null\<close>, \<open>fetchRoute\<close> stops after the two geocoding requests: no request
  goes to the directions endpoint, the failure is written to the error console and the
  state is the one it started from.
\<close>

theorem fetchRoute_aborts_when_not_found:
  assumes "startLocation (ui w) \<noteq> []" and "endLocation (ui w) \<noteq> []"
    and g1: "geocodeLocation rt cfg net (startLocation (ui w)) w = (Inr startCoords, w1)"
    and g2: "geocodeLocation rt cfg net (endLocation (ui w)) w1 = (Inr endCoords, w2)"
    and nf: "startCoords = JNull \<or> endCoords = JNull"
  shows "fetchRoute rt cfg net w
           = (Inr (), w2\<lparr>console := console w2
                @ [ConsoleError ''Geocoding failed for one or both locations.'' []]\<rparr>)
       \<and> requests (snd (fetchRoute rt cfg net w))
           = requests w @ [geocode_url cfg (startLocation (ui w)),
                           geocode_url cfg (endLocation (ui w))]
       \<and> filter is_directions_request
           (drop (length (requests w)) (requests (snd (fetchRoute rt cfg net w)))) = []
       \<and> ui (snd (fetchRoute rt cfg net w)) = ui w"
proof -
  note both = geocode_both [OF g1 g2]
  have a: "fetchRoute rt cfg net w
           = (Inr (), w2\<lparr>console := console w2
                @ [ConsoleError ''Geocoding failed for one or both locations.'' []]\<rparr>)"
    using assms unfolding fetchRoute_def js_defs by auto
  then show ?thesis
    using both by (simp add: geocode_url_not_directions)
qed

theorem fetchRoute_aborts_when_not_found_witness:
  "startLocation (ui (stub_world ''Ottawa'' ''Atlantis'')) \<noteq> []
   \<and> endLocation (ui (stub_world ''Ottawa'' ''Atlantis'')) \<noteq> []
   \<and> (JArr [JNum (- 75), JNum 45] = JNull \<or> JNull = JNull)
   \<and> fetchRoute stub_runtime stub_config
        (stub_network (geocode_hit (- 75) 45) geocode_miss directions_hit)
        (stub_world ''Ottawa'' ''Atlantis'')
      = (Inr (),
         (stub_world ''Ottawa'' ''Atlantis'')
           \<lparr> requests := [geocode_url stub_config ''Ottawa'', geocode_url stub_config ''Atlantis''],
             console := [ConsoleLog ''Geocoded Ottawa:'' [Val (JArr [JNum (- 75), JNum 45])],
                         ConsoleError ''No results found for location: Atlantis'' [],
                         ConsoleError ''Geocoding failed for one or both locations.'' []] \<rparr>)"
proof -
  let ?net = "stub_network (geocode_hit (- 75) 45) geocode_miss directions_hit"
  let ?w = "stub_world ''Ottawa'' ''Atlantis''"
  let ?w1 = "?w\<lparr> requests := [geocode_url stub_config ''Ottawa''],
          console := [ConsoleLog ''Geocoded Ottawa:'' [Val (JArr [JNum (- 75), JNum 45])]] \<rparr>"
  let ?w2 = "?w\<lparr> requests := [geocode_url stub_config ''Ottawa'', geocode_url stub_config ''Atlantis''],
          console := [ConsoleLog ''Geocoded Ottawa:'' [Val (JArr [JNum (- 75), JNum 45])],
                      ConsoleError ''No results found for location: Atlantis'' []] \<rparr>"
  have s: "startLocation (ui ?w) = ''Ottawa''" and e: "endLocation (ui ?w) = ''Atlantis''"
    by (simp_all add: stub_world_def)
  have h1: "startLocation (ui ?w) \<noteq> []" and h2: "endLocation (ui ?w) \<noteq> []"
    by (simp_all add: s e)
  have g1: "geocodeLocation stub_runtime stub_config ?net (startLocation (ui ?w)) ?w
              = (Inr (JArr [JNum (- 75), JNum 45]), ?w1)"
    unfolding s by (rule stub_geocode_start)
  have g2: "geocodeLocation stub_runtime stub_config ?net (endLocation (ui ?w)) ?w1
              = (Inr JNull, ?w2)"
    unfolding e by (rule stub_geocode_miss)
  have nf: "JArr [JNum (- 75), JNum 45] = JNull \<or> JNull = JNull"
    by simp
  note inst = fetchRoute_aborts_when_not_found [OF h1 h2 g1 g2 nf]
  show ?thesis
    using inst h1 h2 by simp
qed

section \<open>The geocoder adapter's contract\<close>

text \<open>
  Claim C4. \<open>geocodeLocation\<close> returns the coordinates of the first candidate when the
  list of candidates is non-empty, \<^verbatim>\<open>null\<close> when the list is empty, and \<^verbatim>\<open>null\<close>
  with the error logged when the request is rejected or the body does not parse; it never
  throws to its caller.
\<close>

theorem geocodeLocation_contract:
  "(\<forall>res data f fs geometry c.
       net (requests w) (geocode_url cfg location) = FetchResolves res
         \<and> json res = Inr data
         \<and> get_prop data ''features'' = Inr (JArr (f # fs))
         \<and> get_prop f ''geometry'' = Inr geometry
         \<and> get_prop geometry ''coordinates'' = Inr c
       \<longrightarrow> fst (geocodeLocation rt cfg net location w) = Inr c)
   \<and> (\<forall>res data.
       net (requests w) (geocode_url cfg location) = FetchResolves res
         \<and> json res = Inr data
         \<and> get_prop data ''features'' = Inr (JArr [])
       \<longrightarrow> fst (geocodeLocation rt cfg net location w) = Inr JNull)
   \<and> (\<forall>e.
       net (requests w) (geocode_url cfg location) = FetchRejects e
       \<longrightarrow> geocodeLocation rt cfg net location w
             = (Inr JNull,
                w\<lparr> requests := requests w @ [geocode_url cfg location],
                   console := console w @
                     [ConsoleError (''Error fetching geocode for location: '' @ location)
                        [Err e]] \<rparr>))
   \<and> (\<forall>res e.
       net (requests w) (geocode_url cfg location) = FetchResolves res
         \<and> json res = Inl e
       \<longrightarrow> geocodeLocation rt cfg net location w
             = (Inr JNull,
                w\<lparr> requests := requests w @ [geocode_url cfg location],
                   console := console w @
                     [ConsoleError (''Error fetching geocode for location: '' @ location)
                        [Err e]] \<rparr>))
   \<and> (\<exists>v. fst (geocodeLocation rt cfg net location w) = Inr v)"
proof -
  have a: "fst (geocodeLocation rt cfg net location w) = Inr c"
    if "net (requests w) (geocode_url cfg location) = FetchResolves res"
      "json res = Inr data" "get_prop data ''features'' = Inr (JArr (f # fs))"
      "get_prop f ''geometry'' = Inr geometry" "get_prop geometry ''coordinates'' = Inr c"
    for res data f fs geometry c
    using that by (simp add: geocode_defs js_defs)
  have b: "fst (geocodeLocation rt cfg net location w) = Inr JNull"
    if "net (requests w) (geocode_url cfg location) = FetchResolves res"
      "json res = Inr data" "get_prop data ''features'' = Inr (JArr [])"
    for res data
    using that by (simp add: geocode_defs js_defs)
  have c: "geocodeLocation rt cfg net location w
             = (Inr JNull,
                w\<lparr> requests := requests w @ [geocode_url cfg location],
                   console := console w @
                     [ConsoleError (''Error fetching geocode for location: '' @ location)
                        [Err e]] \<rparr>)"
    if "net (requests w) (geocode_url cfg location) = FetchRejects e" for e
    using that by (simp add: geocode_defs js_defs)
  have d: "geocodeLocation rt cfg net location w
             = (Inr JNull,
                w\<lparr> requests := requests w @ [geocode_url cfg location],
                   console := console w @
                     [ConsoleError (''Error fetching geocode for location: '' @ location)
                        [Err e]] \<rparr>)"
    if "net (requests w) (geocode_url cfg location) = FetchResolves res" "json res = Inl e"
    for res e
    using that by (simp add: geocode_defs js_defs)
  show ?thesis
    using a b c d geocodeLocation_total [of rt cfg net location w] by blast
qed

theorem geocodeLocation_contract_witness:
  "fst (geocodeLocation stub_runtime stub_config (\<lambda>history url. geocode_hit (- 75) 45)
          ''Ottawa'' (stub_world [] []))
     = Inr (JArr [JNum (- 75), JNum 45])
   \<and> fst (geocodeLocation stub_runtime stub_config (\<lambda>history url. geocode_miss)
          ''Atlantis'' (stub_world [] []))
     = Inr JNull
   \<and> geocodeLocation stub_runtime stub_config (\<lambda>history url. FetchRejects (Rejection ''offline''))
          ''Ottawa'' (stub_world [] [])
     = (Inr JNull,
        (stub_world [] [])
          \<lparr> requests := [geocode_url stub_config ''Ottawa''],
            console := [ConsoleError ''Error fetching geocode for location: Ottawa''
                          [Err (Rejection ''offline'')]] \<rparr>)
   \<and> geocodeLocation stub_runtime stub_config (\<lambda>history url. directions_bad_gateway)
          ''Ottawa'' (stub_world [] [])
     = (Inr JNull,
        (stub_world [] [])
          \<lparr> requests := [geocode_url stub_config ''Ottawa''],
            console := [ConsoleError ''Error fetching geocode for location: Ottawa''
                          [Err (Rejection ''SyntaxError'')]] \<rparr>)"
proof -
  let ?w = "stub_world [] []"
  let ?point = "JObj [(''type'', JStr ''Point''), (''coordinates'', JArr [JNum (- 75), JNum 45])]"
  let ?feature = "JObj [(''geometry'', ?point)]"
  let ?hit = "JObj [(''type'', JStr ''FeatureCollection''), (''features'', JArr [?feature])]"
  let ?miss = "JObj [(''type'', JStr ''FeatureCollection''), (''features'', JArr [])]"
  have "fst (geocodeLocation stub_runtime stub_config (\<lambda>history url. geocode_hit (- 75) 45)
          ''Ottawa'' ?w) = Inr (JArr [JNum (- 75), JNum 45])"
  proof -
    have "geocode_hit (- 75) 45 = FetchResolves \<lparr> ok = True, json = Inr ?hit \<rparr>
        \<and> json \<lparr> ok = True, json = Inr ?hit \<rparr> = Inr ?hit
        \<and> get_prop ?hit ''features'' = Inr (JArr (?feature # []))
        \<and> get_prop ?feature ''geometry'' = Inr ?point
        \<and> get_prop ?point ''coordinates'' = Inr (JArr [JNum (- 75), JNum 45])"
      by (simp add: geocode_hit_def)
    then show ?thesis
      using geocodeLocation_contract [of "\<lambda>history url. geocode_hit (- 75) 45" ?w stub_config
          "''Ottawa''" stub_runtime]
      by blast
  qed
  moreover have "fst (geocodeLocation stub_runtime stub_config (\<lambda>history url. geocode_miss)
          ''Atlantis'' ?w) = Inr JNull"
  proof -
    have "geocode_miss = FetchResolves \<lparr> ok = True, json = Inr ?miss \<rparr>
        \<and> json \<lparr> ok = True, json = Inr ?miss \<rparr> = Inr ?miss
        \<and> get_prop ?miss ''features'' = Inr (JArr [])"
      by (simp add: geocode_miss_def)
    then show ?thesis
      using geocodeLocation_contract [of "\<lambda>history url. geocode_miss" ?w stub_config
          "''Atlantis''" stub_runtime]
      by blast
  qed
  moreover have "geocodeLocation stub_runtime stub_config
          (\<lambda>history url. FetchRejects (Rejection ''offline'')) ''Ottawa'' ?w
     = (Inr JNull,
        ?w\<lparr> requests := [geocode_url stub_config ''Ottawa''],
            console := [ConsoleError ''Error fetching geocode for location: Ottawa''
                          [Err (Rejection ''offline'')]] \<rparr>)"
    using geocodeLocation_contract [of "\<lambda>history url. FetchRejects (Rejection ''offline'')" ?w
        stub_config "''Ottawa''" stub_runtime]
    by (simp add: stub_world_def)
  moreover have "geocodeLocation stub_runtime stub_config
          (\<lambda>history url. directions_bad_gateway) ''Ottawa'' ?w
     = (Inr JNull,
        ?w\<lparr> requests := [geocode_url stub_config ''Ottawa''],
            console := [ConsoleError ''Error fetching geocode for location: Ottawa''
                          [Err (Rejection ''SyntaxError'')]] \<rparr>)"
    using geocodeLocation_contract [of "\<lambda>history url. directions_bad_gateway" ?w
        stub_config "''Ottawa''" stub_runtime]
    by (simp add: stub_world_def directions_bad_gateway_def)
  ultimately show ?thesis by blast
qed

section \<open>Route fetching: a response with a failure status\<close>

text \<open>
  The claim C5 as the specification words it, that every directions response with a
  failure status has its body logged, fails on a response whose body does not parse: the
  rejection of \<^verbatim>\<open>res.json()\<close> reaches the \<^verbatim>\<open>catch\<close> block, which logs the error and
  not a body.
\<close>

theorem fetchRoute_counterexample_unparsable_error_body:
  "ok \<lparr> ok = False, json = Inl (Rejection ''SyntaxError'') \<rparr> = False
   \<and> directions_bad_gateway
       = FetchResolves \<lparr> ok = False, json = Inl (Rejection ''SyntaxError'') \<rparr>
   \<and> console (snd (fetchRoute stub_runtime stub_config
        (stub_network (geocode_hit (- 75) 45) (geocode_hit (- 79) 43) directions_bad_gateway)
        (stub_world ''Ottawa'' ''Toronto'')))
     = [ConsoleLog ''Geocoded Ottawa:'' [Val (JArr [JNum (- 75), JNum 45])],
        ConsoleLog ''Geocoded Toronto:'' [Val (JArr [JNum (- 79), JNum 43])],
        ConsoleError ''Error in geocoding or fetching route:'' [Err (Rejection ''SyntaxError'')]]"
proof -
  have s: "startLocation (ui (stub_world ''Ottawa'' ''Toronto'')) = ''Ottawa''"
    and e: "endLocation (ui (stub_world ''Ottawa'' ''Toronto'')) = ''Toronto''"
    by (simp_all add: stub_world_def)
  have n: "stub_network (geocode_hit (- 75) 45) (geocode_hit (- 79) 43) directions_bad_gateway
             [geocode_url stub_config ''Ottawa'', geocode_url stub_config ''Toronto'']
             (directions_url stub_config s' e') = directions_bad_gateway" for s' e'
    by (simp add: stub_network_def directions_url_is_directions)
  show ?thesis
    by (simp add: fetchRoute_def s e js_defs stub_geocode_start stub_geocode_end n)
      (simp add: directions_bad_gateway_def js_defs stub_world_def)
qed

text \<open>
  Claim C5, amended. When the directions request resolves with a failure status,
  \<open>fetchRoute\<close> logs the parsed body under \<^verbatim>\<open>Error fetching route:\<close> if the body
  parses as JSON and logs the parse error through its \<^verbatim>\<open>catch\<close> block otherwise; in both
  cases the directions request is the last one made (no retry) and the route slot keeps
  its value.
\<close>

theorem fetchRoute_http_failure:
  assumes "startLocation (ui w) \<noteq> []" and "endLocation (ui w) \<noteq> []"
    and g1: "geocodeLocation rt cfg net (startLocation (ui w)) w = (Inr startCoords, w1)"
    and g2: "geocodeLocation rt cfg net (endLocation (ui w)) w1 = (Inr endCoords, w2)"
    and j1: "call_join rt startCoords = Inr start_part"
    and j2: "call_join rt endCoords = Inr end_part"
    and res: "net (requests w2) (directions_url cfg start_part end_part) = FetchResolves res"
    and nok: "\<not> ok res"
  shows "fetchRoute rt cfg net w
           = (Inr (),
              w2\<lparr> requests := requests w2 @ [directions_url cfg start_part end_part],
                  console := console w2 @
                    [case json res of
                       Inr errorData \<Rightarrow> ConsoleError ''Error fetching route:'' [Val errorData]
                     | Inl error \<Rightarrow>
                         ConsoleError ''Error in geocoding or fetching route:'' [Err error]] \<rparr>)
       \<and> requests (snd (fetchRoute rt cfg net w))
           = requests w @ [geocode_url cfg (startLocation (ui w)),
                           geocode_url cfg (endLocation (ui w)),
                           directions_url cfg start_part end_part]
       \<and> route (ui (snd (fetchRoute rt cfg net w))) = route (ui w)"
proof -
  note both = geocode_both [OF g1 g2]
  have t: "truthy startCoords" "truthy endCoords"
    using j1 j2 by (auto dest: call_join_truthy)
  have a: "fetchRoute rt cfg net w
           = (Inr (),
              w2\<lparr> requests := requests w2 @ [directions_url cfg start_part end_part],
                  console := console w2 @
                    [case json res of
                       Inr errorData \<Rightarrow> ConsoleError ''Error fetching route:'' [Val errorData]
                     | Inl error \<Rightarrow>
                         ConsoleError ''Error in geocoding or fetching route:'' [Err error]] \<rparr>)"
    using assms t unfolding fetchRoute_def js_defs
    by (simp split: sum.splits)
  show ?thesis
    unfolding a using both by simp
qed

theorem fetchRoute_http_failure_witness:
  "startLocation (ui (stub_world ''Ottawa'' ''Toronto'')) \<noteq> []
   \<and> endLocation (ui (stub_world ''Ottawa'' ''Toronto'')) \<noteq> []
   \<and> \<not> ok \<lparr> ok = False, json = Inr (JObj [(''message'', JStr ''Not Authorized'')]) \<rparr>
   \<and> fetchRoute stub_runtime stub_config
        (stub_network (geocode_hit (- 75) 45) (geocode_hit (- 79) 43) directions_unauthorized)
        (stub_world ''Ottawa'' ''Toronto'')
      = (Inr (),
         (stub_world ''Ottawa'' ''Toronto'')
           \<lparr> requests := [geocode_url stub_config ''Ottawa'', geocode_url stub_config ''Toronto'',
                          directions_url stub_config ''-75,45'' ''-79,43''],
             console := [ConsoleLog ''Geocoded Ottawa:'' [Val (JArr [JNum (- 75), JNum 45])],
                         ConsoleLog ''Geocoded Toronto:'' [Val (JArr [JNum (- 79), JNum 43])],
                         ConsoleError ''Error fetching route:''
                           [Val (JObj [(''message'', JStr ''Not Authorized'')])]] \<rparr>)"
proof -
  let ?net = "stub_network (geocode_hit (- 75) 45) (geocode_hit (- 79) 43) directions_unauthorized"
  let ?w = "stub_world ''Ottawa'' ''Toronto''"
  let ?w1 = "?w\<lparr> requests := [geocode_url stub_config ''Ottawa''],
          console := [ConsoleLog ''Geocoded Ottawa:'' [Val (JArr [JNum (- 75), JNum 45])]] \<rparr>"
  let ?w2 = "?w\<lparr> requests := [geocode_url stub_config ''Ottawa'', geocode_url stub_config ''Toronto''],
          console := [ConsoleLog ''Geocoded Ottawa:'' [Val (JArr [JNum (- 75), JNum 45])],
                      ConsoleLog ''Geocoded Toronto:'' [Val (JArr [JNum (- 79), JNum 43])]] \<rparr>"
  let ?res = "\<lparr> ok = False, json = Inr (JObj [(''message'', JStr ''Not Authorized'')]) \<rparr>"
  have s: "startLocation (ui ?w) = ''Ottawa''" and e: "endLocation (ui ?w) = ''Toronto''"
    by (simp_all add: stub_world_def)
  have h1: "startLocation (ui ?w) \<noteq> []" and h2: "endLocation (ui ?w) \<noteq> []"
    by (simp_all add: s e)
  have g1: "geocodeLocation stub_runtime stub_config ?net (startLocation (ui ?w)) ?w
              = (Inr (JArr [JNum (- 75), JNum 45]), ?w1)"
    unfolding s by (rule stub_geocode_start)
  have g2: "geocodeLocation stub_runtime stub_config ?net (endLocation (ui ?w)) ?w1
              = (Inr (JArr [JNum (- 79), JNum 43]), ?w2)"
    unfolding e by (rule stub_geocode_end)
  have j1: "call_join stub_runtime (JArr [JNum (- 75), JNum 45]) = Inr ''-75,45''"
    and j2: "call_join stub_runtime (JArr [JNum (- 79), JNum 43]) = Inr ''-79,43''"
    by (simp_all add: stub_runtime_def)
  have n: "?net (requests ?w2) (directions_url stub_config ''-75,45'' ''-79,43'') = FetchResolves ?res"
    by (simp add: stub_network_def directions_url_is_directions directions_unauthorized_def)
  have nok: "\<not> ok ?res" by simp
  note inst = fetchRoute_http_failure [OF h1 h2 g1 g2 j1 j2 n nok]
  show ?thesis
    using inst h1 h2 by simp
qed

section \<open>Map click\<close>

text \<open>
  On an event whose \<^verbatim>\<open>lngLat\<close> is the array \<^verbatim>\<open>[lon, lat]\<close>, the handler replaces
  the user pin by the object with \<^verbatim>\<open>latitude\<close> \<open>lat\<close> and \<^verbatim>\<open>longitude\<close> \<open>lon\<close>: this
  is what line 122 is written for.
\<close>

lemma handleMapClick_on_array:
  "handleMapClick \<lparr> lngLat = JArr [JNum lon, JNum lat] \<rparr> w
     = (Inr (), w\<lparr>ui := (ui w)\<lparr>userPin :=
          JObj [(''latitude'', JNum lat), (''longitude'', JNum lon)]\<rparr>\<rparr>)"
  by (simp add: handleMapClick_def js_bind_def js_lift_def setUserPin_def)

text \<open>
  Claim C6 says that a click at longitude -75 and latitude 45 replaces the user pin by
  the pin with latitude 45 and longitude -75. The map component is used through the
  interface in which a camera move arrives as \<^verbatim>\<open>evt.viewState\<close> (lines 113 to 117) and
  the token is passed as \<^verbatim>\<open>mapboxAccessToken\<close> (line 185); there the click event carries
  the coordinate as an object with the properties \<^verbatim>\<open>lng\<close> and \<^verbatim>\<open>lat\<close>, which is not
  iterable. On that event the array destructuring of line 122 throws a TypeError before
  \<^verbatim>\<open>setUserPin\<close> is reached, and the user pin keeps its value: from the initial state it
  stays \<^verbatim>\<open>null\<close>.
\<close>

theorem handleMapClick_throws_on_LngLat:
  "handleMapClick \<lparr> lngLat = JObj [(''lng'', JNum (- 75)), (''lat'', JNum 45)] \<rparr> w
     = (Inl TypeError, w)
   \<and> userPin (ui (snd (handleMapClick
         \<lparr> lngLat = JObj [(''lng'', JNum (- 75)), (''lat'', JNum 45)] \<rparr> w)))
     = userPin (ui w)
   \<and> userPin (ui (snd (handleMapClick
         \<lparr> lngLat = JObj [(''lng'', JNum (- 75)), (''lat'', JNum 45)] \<rparr>
         (stub_world [] []))))
     = JNull"
  by (simp add: handleMapClick_def js_bind_def js_lift_def stub_world_def initial_state_def)

section \<open>Marker activation\<close>

text \<open>
  Claim C7. Activating the marker of a park \<open>f\<close> twice in a row leaves the same state as
  activating it once, with \<open>f\<close> as the selected park, from every starting state.
\<close>

theorem marker_activation_idempotent:
  "ui (snd (snd (marker_onClick f evt2 (snd (snd (marker_onClick f evt1 w))))))
     = ui (snd (snd (marker_onClick f evt1 w)))
   \<and> selectedPark (ui (snd (snd (marker_onClick f evt1 w)))) = f
   \<and> snd (snd (marker_onClick f evt2 (snd (snd (marker_onClick f evt1 w)))))
     = snd (snd (marker_onClick f evt1 w))"
  by (simp add: marker_onClick_def setSelectedPark_def)

section \<open>Route fetching: no route candidate\<close>

text \<open>
  Claim C8. When the directions request resolves with \<^verbatim>\<open>ok\<close> and a body whose list of
  routes is empty, reading the geometry of the first route throws a TypeError; the
  \<^verbatim>\<open>catch\<close> block of \<open>fetchRoute\<close> logs it, \<open>fetchRoute\<close> returns normally and the route
  slot keeps its value.
\<close>

theorem fetchRoute_no_route_candidates:
  assumes "startLocation (ui w) \<noteq> []" and "endLocation (ui w) \<noteq> []"
    and g1: "geocodeLocation rt cfg net (startLocation (ui w)) w = (Inr startCoords, w1)"
    and g2: "geocodeLocation rt cfg net (endLocation (ui w)) w1 = (Inr endCoords, w2)"
    and j1: "call_join rt startCoords = Inr start_part"
    and j2: "call_join rt endCoords = Inr end_part"
    and res: "net (requests w2) (directions_url cfg start_part end_part) = FetchResolves res"
    and ok: "ok res"
    and body: "json res = Inr data"
    and none: "get_prop data ''routes'' = Inr (JArr [])"
  shows "first_route_geometry data = Inl TypeError
       \<and> fetchRoute rt cfg net w
           = (Inr (),
              w2\<lparr> requests := requests w2 @ [directions_url cfg start_part end_part],
                  console := console w2 @
                    [ConsoleError ''Error in geocoding or fetching route:'' [Err TypeError]] \<rparr>)
       \<and> route (ui (snd (fetchRoute rt cfg net w))) = route (ui w)"
proof -
  note both = geocode_both [OF g1 g2]
  have t: "truthy startCoords" "truthy endCoords"
    using j1 j2 by (auto dest: call_join_truthy)
  have f: "first_route_geometry data = Inl TypeError"
    using none by (simp add: first_route_geometry_def err_bind_def)
  have a: "fetchRoute rt cfg net w
           = (Inr (),
              w2\<lparr> requests := requests w2 @ [directions_url cfg start_part end_part],
                  console := console w2 @
                    [ConsoleError ''Error in geocoding or fetching route:'' [Err TypeError]] \<rparr>)"
    using assms(1-9) t f unfolding fetchRoute_def js_defs
    by simp
  show ?thesis
    unfolding a using both f by simp
qed

theorem fetchRoute_no_route_candidates_witness:
  "startLocation (ui (stub_world ''Ottawa'' ''Toronto'')) \<noteq> []
   \<and> endLocation (ui (stub_world ''Ottawa'' ''Toronto'')) \<noteq> []
   \<and> ok \<lparr> ok = True, json = Inr (JObj [(''routes'', JArr []), (''code'', JStr ''NoRoute'')]) \<rparr>
   \<and> fetchRoute stub_runtime stub_config
        (stub_network (geocode_hit (- 75) 45) (geocode_hit (- 79) 43) directions_no_route)
        (stub_world ''Ottawa'' ''Toronto'')
      = (Inr (),
         (stub_world ''Ottawa'' ''Toronto'')
           \<lparr> requests := [geocode_url stub_config ''Ottawa'', geocode_url stub_config ''Toronto'',
                          directions_url stub_config ''-75,45'' ''-79,43''],
             console := [ConsoleLog ''Geocoded Ottawa:'' [Val (JArr [JNum (- 75), JNum 45])],
                         ConsoleLog ''Geocoded Toronto:'' [Val (JArr [JNum (- 79), JNum 43])],
                         ConsoleError ''Error in geocoding or fetching route:''
                           [Err TypeError]] \<rparr>)"
proof -
  let ?net = "stub_network (geocode_hit (- 75) 45) (geocode_hit (- 79) 43) directions_no_route"
  let ?w = "stub_world ''Ottawa'' ''Toronto''"
  let ?w1 = "?w\<lparr> requests := [geocode_url stub_config ''Ottawa''],
          console := [ConsoleLog ''Geocoded Ottawa:'' [Val (JArr [JNum (- 75), JNum 45])]] \<rparr>"
  let ?w2 = "?w\<lparr> requests := [geocode_url stub_config ''Ottawa'', geocode_url stub_config ''Toronto''],
          console := [ConsoleLog ''Geocoded Ottawa:'' [Val (JArr [JNum (- 75), JNum 45])],
                      ConsoleLog ''Geocoded Toronto:'' [Val (JArr [JNum (- 79), JNum 43])]] \<rparr>"
  let ?data = "JObj [(''routes'', JArr []), (''code'', JStr ''NoRoute'')]"
  let ?res = "\<lparr> ok = True, json = Inr ?data \<rparr>"
  have s: "startLocation (ui ?w) = ''Ottawa''" and e: "endLocation (ui ?w) = ''Toronto''"
    by (simp_all add: stub_world_def)
  have h1: "startLocation (ui ?w) \<noteq> []" and h2: "endLocation (ui ?w) \<noteq> []"
    by (simp_all add: s e)
  have g1: "geocodeLocation stub_runtime stub_config ?net (startLocation (ui ?w)) ?w
              = (Inr (JArr [JNum (- 75), JNum 45]), ?w1)"
    unfolding s by (rule stub_geocode_start)
  have g2: "geocodeLocation stub_runtime stub_config ?net (endLocation (ui ?w)) ?w1
              = (Inr (JArr [JNum (- 79), JNum 43]), ?w2)"
    unfolding e by (rule stub_geocode_end)
  have j1: "call_join stub_runtime (JArr [JNum (- 75), JNum 45]) = Inr ''-75,45''"
    and j2: "call_join stub_runtime (JArr [JNum (- 79), JNum 43]) = Inr ''-79,43''"
    by (simp_all add: stub_runtime_def)
  have n: "?net (requests ?w2) (directions_url stub_config ''-75,45'' ''-79,43'') = FetchResolves ?res"
    by (simp add: stub_network_def directions_url_is_directions directions_no_route_def)
  have k: "ok ?res" and b: "json ?res = Inr ?data"
    and r: "get_prop ?data ''routes'' = Inr (JArr [])"
    by simp_all
  note inst = fetchRoute_no_route_candidates [OF h1 h2 g1 g2 j1 j2 n k b r]
  show ?thesis
    using inst h1 h2 by simp
qed

section \<open>Route fetching: the frame\<close>

text \<open>
  Claim C9. Whatever the input and the outcome, \<open>fetchRoute\<close> returns normally and leaves
  the viewport, the user pin, the selected park, the start text and the end text as they
  were: only the route slot can change.
\<close>

theorem fetchRoute_frame:
  "viewport (ui (snd (fetchRoute rt cfg net w))) = viewport (ui w)
   \<and> userPin (ui (snd (fetchRoute rt cfg net w))) = userPin (ui w)
   \<and> selectedPark (ui (snd (fetchRoute rt cfg net w))) = selectedPark (ui w)
   \<and> startLocation (ui (snd (fetchRoute rt cfg net w))) = startLocation (ui w)
   \<and> endLocation (ui (snd (fetchRoute rt cfg net w))) = endLocation (ui w)
   \<and> fst (fetchRoute rt cfg net w) = Inr ()"
proof -
  obtain r1 w1 where g1: "geocodeLocation rt cfg net (startLocation (ui w)) w = (r1, w1)"
    by (cases "geocodeLocation rt cfg net (startLocation (ui w)) w")
  obtain r2 w2 where g2: "geocodeLocation rt cfg net (endLocation (ui w)) w1 = (r2, w2)"
    by (cases "geocodeLocation rt cfg net (endLocation (ui w)) w1")
  have u: "ui w2 = ui w" by (rule geocode_both(2) [OF g1 g2])
  have u1: "ui w1 = ui w" using geocodeLocation_ui [of rt cfg net "startLocation (ui w)" w] g1 by simp
  have "\<exists>g. ui (snd (fetchRoute rt cfg net w)) = (ui w)\<lparr>route := g\<rparr>"
  proof (cases "startLocation (ui w) \<noteq> [] \<and> endLocation (ui w) \<noteq> []")
    case False
    then have "fetchRoute rt cfg net w = (Inr (), w)" by (auto simp: fetchRoute_def)
    then have "ui (snd (fetchRoute rt cfg net w)) = (ui w)\<lparr>route := route (ui w)\<rparr>" by simp
    then show ?thesis by blast
  next
    case True
    have "ui (snd (fetchRoute rt cfg net w)) = ui w1
        \<or> ui (snd (fetchRoute rt cfg net w)) = ui w2
        \<or> (\<exists>g. ui (snd (fetchRoute rt cfg net w)) = (ui w2)\<lparr>route := g\<rparr>)"
      using True g1 g2 unfolding fetchRoute_def js_defs
      by (auto split: sum.splits fetch_outcome.splits prod.splits)
    then show ?thesis
      unfolding u u1 by (metis app_state.update_convs(6) app_state.surjective)
  qed
  moreover have "fst (fetchRoute rt cfg net w) = Inr ()"
    unfolding fetchRoute_def js_defs
    by (auto split: sum.splits fetch_outcome.splits prod.splits if_splits)
  ultimately show ?thesis by auto
qed

section \<open>Geolocation: the viewport update\<close>

text \<open>
  Claim C10. On a successful geolocation result the viewport gets the latitude and the
  longitude of the device and the zoom 12, and every other property of the viewport, in
  particular bearing, pitch, width and height, keeps its value.
\<close>

theorem geolocation_success_recentres:
  "geolocation_effect (Located position) w
     = (Inr (), w\<lparr>ui := (ui w)\<lparr>viewport :=
          recentre (JNum (latitude (coords position))) (JNum (longitude (coords position)))
            (viewport (ui w))\<rparr>\<rparr>)
   \<and> map_of (viewport (ui (snd (geolocation_effect (Located position) w))))
     = (map_of (viewport (ui w)))
         (''latitude'' \<mapsto> JNum (latitude (coords position)),
          ''longitude'' \<mapsto> JNum (longitude (coords position)),
          ''zoom'' \<mapsto> JNum 12)
   \<and> map_of (viewport (ui (snd (geolocation_effect (Located position) w)))) ''bearing''
     = map_of (viewport (ui w)) ''bearing''
   \<and> map_of (viewport (ui (snd (geolocation_effect (Located position) w)))) ''pitch''
     = map_of (viewport (ui w)) ''pitch''
   \<and> map_of (viewport (ui (snd (geolocation_effect (Located position) w)))) ''width''
     = map_of (viewport (ui w)) ''width''
   \<and> map_of (viewport (ui (snd (geolocation_effect (Located position) w)))) ''height''
     = map_of (viewport (ui w)) ''height''"
  by (simp add: geolocation_effect_def setViewport_def recentre_def update_conv')

end
